theory Spec2Isabelle
  imports Main "HOL-Library.AList"
begin

section \<open>The build command of tsmodule (src/commands/build/index.ts)\<close>

text \<open>
  The build operation is an asynchronous procedure that talks to the file system, to the
  transform engine (esbuild) and to a handful of helper modules. The embedding makes every
  such interaction explicit: \<open>build\<close> maps the state of the outside world it reads (a record
  \<open>world\<close>) and its arguments to an outcome and to the list of effects it performs, in
  program order. Calls started together by \<open>Promise.all\<close> are listed in the order in which
  the source starts them. Collaborators are taken to succeed: a rejected promise would
  leave \<open>build\<close> at the call that rejects. Console output is not part of the trace, except
  the number printed in the success message of the declaration stage; what the build
  prints is given separately, by \<open>console\<close>.
\<close>

subsection \<open>Strings and paths\<close>

text \<open>\<open>String.prototype.startsWith\<close> and \<open>String.prototype.endsWith\<close>.\<close>

fun startsWith :: "string \<Rightarrow> string \<Rightarrow> bool" where
  "startsWith s [] = True"
| "startsWith [] (p # ps) = False"
| "startsWith (c # cs) (p # ps) = (c = p \<and> startsWith cs ps)"

definition endsWith :: "string \<Rightarrow> string \<Rightarrow> bool" where
  "endsWith s suf = (length suf \<le> length s \<and> drop (length s - length suf) s = suf)"

text \<open>
  \<open>subject.replace(pattern, replacement)\<close> with a string pattern: the first occurrence of
  the pattern is replaced. In the replacement, \<open>$$\<close> stands for a dollar sign, \<open>$&\<close> for
  the matched text, a dollar sign followed by a backquote for the text before the match,
  and a dollar sign followed by a quote for the text after it; a string pattern has no
  groups, so every other dollar sign stands for itself.
\<close>

fun expand_replacement :: "string \<Rightarrow> string \<Rightarrow> string \<Rightarrow> string \<Rightarrow> string" where
  "expand_replacement [] matched pre post = []"
| "expand_replacement [c] matched pre post = [c]"
| "expand_replacement (c # d # ds) matched pre post =
     (if c = CHR ''$'' \<and> d = CHR ''$'' then CHR ''$'' # expand_replacement ds matched pre post
      else if c = CHR ''$'' \<and> d = CHR ''&'' then matched @ expand_replacement ds matched pre post
      else if c = CHR ''$'' \<and> d = CHR 0x60 then pre @ expand_replacement ds matched pre post
      else if c = CHR ''$'' \<and> d = CHR 0x27 then post @ expand_replacement ds matched pre post
      else c # expand_replacement (d # ds) matched pre post)"

fun replace_from :: "string \<Rightarrow> string \<Rightarrow> string \<Rightarrow> string \<Rightarrow> string" where
  "replace_from pre [] pat rep =
     (if pat = [] then pre @ expand_replacement rep [] pre [] else pre)"
| "replace_from pre (c # cs) pat rep =
     (if startsWith (c # cs) pat
      then pre @ expand_replacement rep pat pre (drop (length pat) (c # cs)) @
           drop (length pat) (c # cs)
      else replace_from (pre @ [c]) cs pat rep)"

definition replace_str :: "string \<Rightarrow> string \<Rightarrow> string \<Rightarrow> string" where
  "replace_str s pat rep = replace_from [] s pat rep"

text \<open>\<open>subject.replace(/^(\.\/)?src\//, "dist/")\<close>, the regular expression of line 351.\<close>

definition replace_src_prefix :: "string \<Rightarrow> string" where
  "replace_src_prefix s =
     (if startsWith s ''./src/'' then ''dist/'' @ drop 6 s
      else if startsWith s ''src/'' then ''dist/'' @ drop 4 s
      else s)"

text \<open>
  \<open>path.extname\<close> of Node (POSIX flavour). The last path segment is found after dropping
  trailing slashes; the extension runs from the last dot of that segment to its end. It is
  empty when the segment has no dot, when the last dot is the segment's first character,
  and when the segment is \<open>..\<close>.
\<close>

definition last_segment :: "string \<Rightarrow> string" where
  "last_segment p =
     rev (takeWhile (\<lambda>c. c \<noteq> CHR ''/'') (dropWhile (\<lambda>c. c = CHR ''/'') (rev p)))"

definition extname :: "string \<Rightarrow> string" where
  "extname p =
     (let seg = last_segment p;
          ext_rev = takeWhile (\<lambda>c. c \<noteq> CHR ''.'') (rev seg);
          stem = take (length seg - length ext_rev - 1) seg
      in if CHR ''.'' \<notin> set seg then []
         else if stem = [] then []
         else if seg = ''..'' then []
         else CHR ''.'' # rev ext_rev)"

text \<open>\<open>JSON.stringify\<close> of a string without characters that need escaping.\<close>

definition json_stringify :: "string \<Rightarrow> string" where
  "json_stringify s = CHR 0x22 # s @ [CHR 0x22]"

definition REACT_IMPORTS :: string where
  "REACT_IMPORTS =
     ''import React from '' @ json_stringify ''react'' @ '';'' @ [CHR 0x0A] @
     ''import ReactDOM from '' @ json_stringify ''react-dom'' @ '';'' @ [CHR 0x0A]"

subsection \<open>Arguments\<close>

datatype format = Iife | Cjs | Esm

text \<open>
  \<open>stdin\<close> is declared \<open>string | undefined\<close>; the command line passes the bare flag, which
  is why the source tests \<open>typeof stdin === "string"\<close> before using it as text.
\<close>

datatype stdin_arg = StdinUndefined | StdinFlag | StdinText string

record build_args =
  input :: string
  styles :: string
  target :: string
  format :: format
  tsconfig :: string
  dev :: bool
  bundle_arg :: bool
  binary :: bool
  standalone :: bool
  clear :: bool
  runtimeOnly :: bool
  jsOnly :: bool
  noWrite :: bool
  stdin :: stdin_arg
  stdinFile :: "string option"
  external :: "string list"

text \<open>The defaults of the destructuring parameter (lines 64 to 81).\<close>

definition default_args :: build_args where
  "default_args =
     \<lparr> input = ''src/**/*'', styles = ''src/components/index.css'', target = ''esnext'',
       format = Esm, tsconfig = ''tsconfig.json'', dev = False, bundle_arg = False,
       binary = False, standalone = False, clear = True, runtimeOnly = False,
       jsOnly = False, noWrite = False, stdin = StdinUndefined, stdinFile = None,
       external = [] \<rparr>"

text \<open>JavaScript truthiness of the values the source tests with \<open>if\<close> and \<open>!\<close>.\<close>

fun truthy_stdin :: "stdin_arg \<Rightarrow> bool" where
  "truthy_stdin StdinUndefined = False"
| "truthy_stdin StdinFlag = True"
| "truthy_stdin (StdinText s) = (s \<noteq> [])"

fun truthy :: "string option \<Rightarrow> bool" where
  "truthy None = False"
| "truthy (Some s) = (s \<noteq> [])"

text \<open>Lines 85 to 91: the two flags the source overwrites at entry.\<close>

definition runtimeOnly_eff :: "build_args \<Rightarrow> bool" where
  "runtimeOnly_eff a = (if dev a then True else runtimeOnly a)"

definition bundle_eff :: "build_args \<Rightarrow> bool" where
  "bundle_eff a = (if standalone a then True else bundle_arg a)"

definition node_env :: "build_args \<Rightarrow> string" where
  "node_env a = (if dev a then ''development'' else ''production'')"

subsection \<open>Options handed to the transform engine\<close>

datatype plugin = relativeExternsPlugin | removeEsmShim

record common_options =
  co_treeShaking :: bool
  co_target :: string
  co_minify :: bool
  co_jsx :: string
  co_jsxFactory :: string
  co_format :: format
  co_charset :: string
  co_logLevel :: string
  co_define :: "(string \<times> string) list"

record build_options = common_options +
  bo_tsconfig :: string
  bo_bundle :: bool
  bo_splitting :: bool
  bo_absWorkingDir :: string
  bo_outbase :: string
  bo_outdir :: string
  bo_assetNames :: string
  bo_platform :: string
  bo_write :: bool
  bo_external :: "string list option"
  bo_banner :: "string option"
  bo_plugins :: "plugin list"

record transform_options = common_options +
  to_sourcefile :: string
  to_loader :: string

subsection \<open>The outside world\<close>

text \<open>
  The regular expressions \<open>isTs\<close>, \<open>isTsxOrJsx\<close> and \<open>isJsOrTs\<close> are imported from
  utils/resolve, whose source is not available; each is a parameter, given by its \<open>test\<close>
  and by its use in \<open>subject.replace(regex, replacement)\<close>.
\<close>

record regex =
  rx_test :: "string \<Rightarrow> bool"
  rx_replace :: "string \<Rightarrow> string \<Rightarrow> string"

record tsconfig_file =
  other_fields :: "(string \<times> string) list"
  compilerOptions :: "(string \<times> string) list"

record package_json =
  pkg_platform :: "string option"
  pkg_style :: "string option"

text \<open>
  What a build reads from outside, one field per call of the source:
  \<^item> \<open>penv\<close>: the process environment at entry;
  \<^item> \<open>distFiles\<close>: the result of \<open>glob("./dist/*")\<close> (line 97);
  \<^item> \<open>cwd\<close>, \<open>srcDir\<close>, \<open>outDir\<close>: the result of \<open>getWorkingDirs()\<close> (line 101);
  \<^item> \<open>pkgJson\<close>: the fields read from the parsed package descriptor (lines 107, 173, 393);
  \<^item> \<open>getTsconfig\<close>: the configuration found for a name, if any (line 147);
  \<^item> \<open>tempCopy\<close>: the path computed at line 158, a file named after the current time in
    the temporary directory;
  \<^item> \<open>ESM_REQUIRE_SHIM\<close>: the constant imported from specification/removeEsmShim;
  \<^item> \<open>readStdin\<close>: the text \<open>readStdin()\<close> yields (line 194);
  \<^item> \<open>transform\<close>: the code the engine's \<open>transform\<close> returns (line 206);
  \<^item> \<open>globSync\<close>: the result of \<open>glob.sync(pattern, { cwd })\<close> (line 235);
  \<^item> \<open>resolvePath\<close>, \<open>isAbsolute\<close>, \<open>dirname\<close>: the functions of Node's \<open>path\<close> (they
    depend on the platform and on the working directory);
  \<^item> \<open>readFile\<close>: the contents of a source file (line 277);
  \<^item> \<open>getEmittedFile\<close>: the helper of utils/cwd (line 330);
  \<^item> \<open>rewrotePkgJson\<close>: what \<open>forceModuleTypeInDist\<close> returns (line 375);
  \<^item> \<open>existsSync\<close>: whether a path exists (line 391);
  \<^item> \<open>distCssFiles\<close>: the result of \<open>glob.sync("dist/**/*.css")\<close> (line 418).
\<close>

record world =
  penv :: "string \<rightharpoonup> string"
  distFiles :: "string list"
  cwd :: string
  srcDir :: string
  outDir :: string
  pkgJson :: package_json
  getTsconfig :: "string \<Rightarrow> tsconfig_file option"
  tempCopy :: string
  ESM_REQUIRE_SHIM :: string
  readStdin :: string
  transform :: "string \<Rightarrow> transform_options \<Rightarrow> string"
  globSync :: "string \<Rightarrow> string list"
  resolvePath :: "string \<Rightarrow> string"
  isAbsolute :: "string \<Rightarrow> bool"
  isTs :: regex
  isTsxOrJsx :: regex
  isJsOrTs :: regex
  readFile :: "string \<Rightarrow> string"
  getEmittedFile :: "string \<Rightarrow> string"
  dirname :: "string \<Rightarrow> string"
  rewrotePkgJson :: bool
  existsSync :: "string \<Rightarrow> bool"
  distCssFiles :: "string list"


subsection \<open>Outcome and effects\<close>

text \<open>
  \<open>build\<close> returns \<open>undefined\<close> or the compiled text, or ends the process
  (\<open>process.exit\<close>) with a status.
\<close>

datatype outcome = Returned "string option" | Exited nat

text \<open>
  Modelled from the spec: \<open>overwriteEntryPoint\<close> (build/lib/buildUtils) is called by the
  build command and its source is not available. The spec (4.2) says that the entry point
  is redirected to an in-memory buffer. The entry of an engine invocation is therefore
  either a list of entry points, or such a buffer: its contents, then the name of the file
  it stands for. The other options of the invocation are those of \<open>buildOptions\<close>.
\<close>

datatype entry = EntryPoints "string list" | StdinEntry string string

text \<open>\<open>Rm p force recursive\<close> is \<open>rm(p, { force, recursive })\<close>.\<close>

datatype effect =
    SetEnv string string
  | Unlink string
  | WriteFile string tsconfig_file
  | ReadStdin
  | Transform string transform_options
  | Esbuild build_options entry
  | Rm string bool bool
  | Mkdir string
  | CopyFile string string
  | NormalizeImportSpecifiers string
  | ForceModuleTypeInDist format
  | BuildCssEntryPoint string string bool
  | BuildBinaries
  | EmitTsDeclarations nat

subsection \<open>Lines 109 to 178: the option records\<close>

definition commonOptions :: "build_args \<Rightarrow> common_options" where
  "commonOptions a =
     \<lparr> co_treeShaking = bundle_eff a, co_target = target a, co_minify = (\<not> dev a),
       co_jsx = ''transform'', co_jsxFactory = ''React.createElement'',
       co_format = format a, co_charset = ''utf8'',
       co_logLevel = (if dev a then ''warning'' else ''error''),
       co_define = [(''process.env.NODE_ENV'', json_stringify (node_env a))] \<rparr>"

definition plugins :: "build_args \<Rightarrow> plugin list" where
  "plugins a =
     (if \<not> standalone a then [relativeExternsPlugin] else []) @
     (if format a = Cjs then [removeEsmShim] else [])"

definition banner :: "world \<Rightarrow> build_args \<Rightarrow> string option" where
  "banner w a =
     (if bundle_eff a then (case format a of Esm \<Rightarrow> Some (ESM_REQUIRE_SHIM w) | _ \<Rightarrow> None)
      else None)"

definition defaultExterns :: "string list" where
  "defaultExterns = [''esbuild'', ''*.png'']"

definition buildOptions :: "world \<Rightarrow> build_args \<Rightarrow> build_options" where
  "buildOptions w a =
     common_options.extend ((commonOptions a)\<lparr> co_target := ''esnext'' \<rparr>)
       (build_options.fields (tempCopy w) (bundle_eff a)
          (\<not> standalone a \<and> \<not> truthy_stdin (stdin a) \<and> format a = Esm \<and> bundle_eff a)
          (cwd w) ''src'' ''dist'' ''[name].js''
          (case pkg_platform (pkgJson w) of Some p \<Rightarrow> p | None \<Rightarrow> ''node'')
          (\<not> noWrite a)
          (if \<not> bundle_eff a then None else Some (defaultExterns @ external a))
          (banner w a) (plugins a))"

definition transformOptions :: "build_args \<Rightarrow> string \<Rightarrow> transform_options" where
  "transformOptions a sourcefile =
     common_options.extend (commonOptions a) (transform_options.fields sourcefile ''tsx'')"

subsection \<open>Lines 147 to 156: the derived compiler configuration\<close>

definition tsconfigWithOverrides :: "world \<Rightarrow> build_args \<Rightarrow> tsconfig_file" where
  "tsconfigWithOverrides w a =
     (let config = (case getTsconfig w (tsconfig a) of
                      None \<Rightarrow> \<lparr> other_fields = [], compilerOptions = [] \<rparr>
                    | Some c \<Rightarrow> c)
      in config\<lparr> compilerOptions :=
           AList.update ''jsxFactory'' ''React.createElement''
             (AList.update ''jsx'' ''react'' (compilerOptions config)) \<rparr>)"

subsection \<open>Lines 82 to 159: what every build does first\<close>

text \<open>
  The mode is written to the process environment, the files matched by \<open>./dist/*\<close> are
  unlinked when \<open>clear\<close> is set, and the derived configuration is written to the temporary
  directory.
\<close>

definition penv_after_entry :: "world \<Rightarrow> build_args \<Rightarrow> (string \<rightharpoonup> string)" where
  "penv_after_entry w a = (penv w)(''NODE_ENV'' \<mapsto> node_env a)"

definition entry_effects :: "world \<Rightarrow> build_args \<Rightarrow> effect list" where
  "entry_effects w a =
     SetEnv ''NODE_ENV'' (node_env a) #
     (if clear a then map Unlink (distFiles w) else []) @
     [WriteFile (tempCopy w) (tsconfigWithOverrides w a)]"

subsection \<open>Lines 182 to 225: building from literal input\<close>

text \<open>
  The text is the argument when it is a non-empty string, and is read from the standard
  input otherwise. Without a companion file name the process exits with status 1. With
  \<open>noWrite\<close> the text goes through \<open>transform\<close> and the code is returned; otherwise the
  engine builds it, as a buffer standing for the companion file, and \<open>undefined\<close> is
  returned.
\<close>

definition stdinSource :: "world \<Rightarrow> build_args \<Rightarrow> string \<times> effect list" where
  "stdinSource w a =
     (case stdin a of
        StdinText s \<Rightarrow> (if s \<noteq> [] then (s, []) else (readStdin w, [ReadStdin]))
      | _ \<Rightarrow> (readStdin w, [ReadStdin]))"

definition stdin_build :: "world \<Rightarrow> build_args \<Rightarrow> outcome \<times> effect list" where
  "stdin_build w a =
     (case stdinFile a of
        None \<Rightarrow> (Exited 1, [])
      | Some file \<Rightarrow>
          if file = [] then (Exited 1, [])
          else
            let (source, reads) = stdinSource w a
            in if noWrite a
               then (Returned (Some (transform w source (transformOptions a file))),
                     reads @ [Transform source (transformOptions a file)])
               else (Returned None,
                     reads @ [Esbuild (buildOptions w a) (StdinEntry source file)]))"

subsection \<open>Lines 227 to 470: building from files\<close>

text \<open>
  One definition per stage, in the order of the source: the files of the build (233 to
  245), the deletion of old output (239 to 258), the compilation of the TSX and JSX files
  (263 to 293) and of the other TypeScript files (298 to 314), the deletion of the
  temporary configuration (319), the copy of the other files (325 to 342), the
  normalization of specifiers (347 to 367), the metadata patch (375), and, unless the
  build is runtime-only (383), the styles and binaries (390 to 455) and the declarations
  (459 to 466).
\<close>

definition allFiles :: "world \<Rightarrow> build_args \<Rightarrow> string list" where
  "allFiles w a =
     (let found = map (resolvePath w)
                    (filter (\<lambda>file. extname file \<noteq> ''.d.ts'') (globSync w (input a)))
      in if isAbsolute w (input a) \<and> found = [] then [input a] else found)"

definition outfile :: "world \<Rightarrow> build_args \<Rightarrow> string" where
  "outfile w a =
     rx_replace (isTsxOrJsx w)
       (rx_replace (isTs w) (replace_str (input a) (srcDir w) (outDir w)) ''.js'') ''.js''"

definition clean_effects :: "world \<Rightarrow> build_args \<Rightarrow> effect list" where
  "clean_effects w a =
     (if isAbsolute w (input a) then [Rm (outfile w a) True False]
      else [Rm (outDir w) True True])"

definition compilableTsxFiles :: "world \<Rightarrow> build_args \<Rightarrow> string list" where
  "compilableTsxFiles w a =
     filter (\<lambda>file. \<not> endsWith file ''.d.ts'')
       (filter (\<lambda>file. rx_test (isTsxOrJsx w) file) (allFiles w a))"

definition tsx_effects :: "world \<Rightarrow> build_args \<Rightarrow> effect list" where
  "tsx_effects w a =
     map (\<lambda>tsxFile. Esbuild (buildOptions w a)
                      (StdinEntry (REACT_IMPORTS @ readFile w tsxFile) tsxFile))
       (compilableTsxFiles w a)"

definition tsJsInput :: "world \<Rightarrow> build_args \<Rightarrow> string list" where
  "tsJsInput w a =
     filter (\<lambda>file. \<not> rx_test (isTsxOrJsx w) file)
       (filter (\<lambda>file. rx_test (isTs w) file) (allFiles w a))"

definition ts_effects :: "world \<Rightarrow> build_args \<Rightarrow> effect list" where
  "ts_effects w a =
     [Esbuild (buildOptions w a)
        (EntryPoints (filter (\<lambda>file. \<not> endsWith file ''.d.ts'') (tsJsInput w a)))]"

definition nonTsJsInput :: "world \<Rightarrow> build_args \<Rightarrow> string list" where
  "nonTsJsInput w a = filter (\<lambda>file. \<not> rx_test (isJsOrTs w) file) (allFiles w a)"

definition copy_effects :: "world \<Rightarrow> build_args \<Rightarrow> effect list" where
  "copy_effects w a =
     concat (map (\<lambda>file. [Mkdir (dirname w (getEmittedFile w file)),
                           CopyFile file (getEmittedFile w file)])
               (nonTsJsInput w a))"

definition emittedJs :: "world \<Rightarrow> build_args \<Rightarrow> string" where
  "emittedJs w a =
     rx_replace (isTsxOrJsx w)
       (rx_replace (isTs w)
          (replace_src_prefix (replace_str (input a) (srcDir w) (outDir w))) ''.js'') ''.js''"

definition normalize_effects :: "world \<Rightarrow> build_args \<Rightarrow> effect list" where
  "normalize_effects w a =
     (if \<not> truthy (penv_after_entry w a ''NO_REWRITES'')
      then [NormalizeImportSpecifiers
              (if endsWith (emittedJs w a) ''.js'' then emittedJs w a
               else emittedJs w a @ ''.js'')]
      else [])"

definition bundleOutput :: "world \<Rightarrow> string" where
  "bundleOutput w = (case pkg_style (pkgJson w) of Some s \<Rightarrow> s | None \<Rightarrow> ''./dist/bundle.css'')"

definition styles_effects :: "world \<Rightarrow> build_args \<Rightarrow> effect list" where
  "styles_effects w a =
     (if existsSync w (resolvePath w (styles a))
      then BuildCssEntryPoint (styles a) (bundleOutput w) (dev a) #
           (if bundle_eff a
            then map (\<lambda>file. BuildCssEntryPoint file file (dev a)) (distCssFiles w)
            else [])
      else [])"

definition auxiliary_effects :: "world \<Rightarrow> build_args \<Rightarrow> effect list" where
  "auxiliary_effects w a =
     (if \<not> jsOnly a
      then styles_effects w a @ (if binary a then [BuildBinaries] else [])
      else []) @
     [EmitTsDeclarations (length (allFiles w a))]"

definition files_build :: "world \<Rightarrow> build_args \<Rightarrow> outcome \<times> effect list" where
  "files_build w a =
     (Returned None,
      clean_effects w a @ tsx_effects w a @ ts_effects w a @
      [Rm (tempCopy w) False False] @
      copy_effects w a @ normalize_effects w a @
      [ForceModuleTypeInDist (format a)] @
      (if runtimeOnly_eff a then [] else auxiliary_effects w a))"

subsection \<open>The build operation\<close>

text \<open>
  The entry steps, then one of the two branches, chosen by the truthiness of \<open>stdin\<close>
  (line 183).
\<close>

definition build :: "world \<Rightarrow> build_args \<Rightarrow> outcome \<times> effect list" where
  "build w a =
     (let (result, effects) = (if truthy_stdin (stdin a) then stdin_build w a
                               else files_build w a)
      in (result, entry_effects w a @ effects))"

definition trace :: "world \<Rightarrow> build_args \<Rightarrow> effect list" where
  "trace w a = snd (build w a)"

subsection \<open>Reading a trace\<close>

text \<open>
  Which effects change the file system. An engine invocation writes its output unless
  its \<open>write\<close> option is off; \<open>transform\<close> never writes.
\<close>

fun fs_mutation :: "effect \<Rightarrow> bool" where
  "fs_mutation (SetEnv k v) = False"
| "fs_mutation (Unlink p) = True"
| "fs_mutation (WriteFile p c) = True"
| "fs_mutation ReadStdin = False"
| "fs_mutation (Transform s opts) = False"
| "fs_mutation (Esbuild opts e) = bo_write opts"
| "fs_mutation (Rm p f r) = True"
| "fs_mutation (Mkdir p) = True"
| "fs_mutation (CopyFile p q) = True"
| "fs_mutation (NormalizeImportSpecifiers p) = True"
| "fs_mutation (ForceModuleTypeInDist f) = True"
| "fs_mutation (BuildCssEntryPoint p q d) = True"
| "fs_mutation BuildBinaries = True"
| "fs_mutation (EmitTsDeclarations n) = True"

definition no_fs_mutation :: "effect list \<Rightarrow> bool" where
  "no_fs_mutation tr = (filter fs_mutation tr = [])"

text \<open>The paths a trace deletes, and those it deletes recursively.\<close>

fun deletion :: "effect \<Rightarrow> string option" where
  "deletion (Unlink p) = Some p"
| "deletion (Rm p f r) = Some p"
| "deletion e = None"

definition deleted_paths :: "effect list \<Rightarrow> string list" where
  "deleted_paths tr = List.map_filter deletion tr"

fun recursive_deletion :: "effect \<Rightarrow> string option" where
  "recursive_deletion (Rm p f r) = (if r then Some p else None)"
| "recursive_deletion e = None"

definition recursively_deleted :: "effect list \<Rightarrow> string list" where
  "recursively_deleted tr = List.map_filter recursive_deletion tr"

text \<open>
  The paths a build deletes other than the destination computed for its input and its own
  temporary configuration.
\<close>

definition stray_deletions :: "world \<Rightarrow> build_args \<Rightarrow> string list" where
  "stray_deletions w a =
     filter (\<lambda>p. p \<noteq> outfile w a \<and> p \<noteq> tempCopy w) (deleted_paths (trace w a))"

text \<open>The files a trace hands to the engine for compilation.\<close>

fun compile_inputs :: "effect \<Rightarrow> string list" where
  "compile_inputs (Esbuild opts (EntryPoints files)) = files"
| "compile_inputs (Esbuild opts (StdinEntry contents file)) = [file]"
| "compile_inputs e = []"

definition compiled_files :: "effect list \<Rightarrow> string list" where
  "compiled_files tr = concat (map compile_inputs tr)"



text \<open>The stages after the metadata patch: styles, binaries, declarations.\<close>

fun is_auxiliary :: "effect \<Rightarrow> bool" where
  "is_auxiliary (BuildCssEntryPoint p q d) = True"
| "is_auxiliary BuildBinaries = True"
| "is_auxiliary (EmitTsDeclarations n) = True"
| "is_auxiliary e = False"

fun normalization :: "effect \<Rightarrow> string option" where
  "normalization (NormalizeImportSpecifiers p) = Some p"
| "normalization e = None"

definition normalizations :: "effect list \<Rightarrow> string list" where
  "normalizations tr = List.map_filter normalization tr"

text \<open>The counts a trace reports at the end of the declaration stage.\<close>

fun report :: "effect \<Rightarrow> nat option" where
  "report (EmitTsDeclarations n) = Some n"
| "report e = None"

definition reports :: "effect list \<Rightarrow> nat list" where
  "reports tr = List.map_filter report tr"

subsection \<open>Console output\<close>

text \<open>
  What the build command itself prints, in order, for the same run: the calls of \<open>log\<close>,
  of \<open>bannerLog\<close>, of the spinner's \<open>succeed\<close>, and the messages it hands to
  \<open>showProgress\<close>. Colours and styles are left out. The debug logger prints only when
  debugging is switched on and is not included, nor is what a collaborator prints while it
  runs.

  Modelled from the spec: \<open>showProgress\<close> (utils/showProgress) is called by the build
  command and its source is not available. The spec (7) says that every stage reports its
  start, and its success or its failure: a stage that succeeds prints its start message
  and then its success message.
\<close>

datatype message = Log string | Banner string | Start string | Success string

fun decimal :: "nat \<Rightarrow> string" where
  "decimal n =
     (if n < 10 then [''0123456789'' ! n]
      else decimal (n div 10) @ [''0123456789'' ! (n mod 10)])"

declare decimal.simps [simp del]

definition showProgress :: "string \<Rightarrow> string \<Rightarrow> message list" where
  "showProgress start success = [Start start, Success success]"

text \<open>Lines 186 to 189 and 205 to 224.\<close>

definition stdin_console :: "build_args \<Rightarrow> message list" where
  "stdin_console a =
     (if \<not> truthy (stdinFile a)
      then [Log (''ERROR: --stdin-file must be specified to emulate a file location '' @
                 ''when using stdin.'')]
      else if noWrite a then []
      else showProgress ''Building stdin to dist/.'' ''Built stdin to dist/.'' @
           [Log ''Use --no-write to print to stdout instead.''])"

text \<open>
  Lines 228 to 342: the banner, which reads the mode back from the environment it was
  written to at entry, and the messages of the compile and copy stages.
\<close>

definition compile_console :: "build_args \<Rightarrow> message list" where
  "compile_console a =
     [Banner (''TS Module ['' @ node_env a @ '']'')] @
     showProgress ''Compiling TSX files.'' ''Compiled TSX files.'' @
     showProgress ''Compiling TS/JS files.'' ''Compiled TS/JS files.'' @
     showProgress ''Copying non-source files to dist/.'' ''Copied non-source files to dist/.''"

text \<open>Lines 347 to 367: the guard has no other branch.\<close>

definition normalize_console :: "world \<Rightarrow> build_args \<Rightarrow> message list" where
  "normalize_console w a =
     (if \<not> truthy (penv_after_entry w a ''NO_REWRITES'')
      then showProgress ''Normalizing import specifiers.'' ''Normalized import specifiers.''
      else [])"

text \<open>Lines 375 to 381.\<close>

definition patch_console :: "world \<Rightarrow> message list" where
  "patch_console w =
     (if rewrotePkgJson w
      then [Success (''Forced '' @ json_stringify ''type'' @ '' package.json field in dist.'')]
      else [])"

text \<open>Lines 390 to 469.\<close>

definition styles_console :: "world \<Rightarrow> build_args \<Rightarrow> message list" where
  "styles_console w a =
     (if existsSync w (resolvePath w (styles a))
      then showProgress ''Bundling styles with Tailwind.'' ''Bundled styles with Tailwind.'' @
           (if bundle_eff a
            then showProgress ''Bundling emitted styles''
                   (''Bundled all styles to '' @ bundleOutput w @ ''.'')
            else [])
      else [Log [], Log ''Bundle styles not found for this project.'',
            Log (''Checked: '' @ styles a)])"

definition binary_console :: "message list" where
  "binary_console =
     [Banner ''Building binary executables.'',
      Log ''IMPORTANT: Top-level await is not supported yet.'',
      Log (''Your program cannot be built to a binary if it contains TLA. '' @
           ''Wrap with an async iife for now.''),
      Log ''See: https://github.com/vercel/pkg/issues/1291'']"

definition auxiliary_console :: "world \<Rightarrow> build_args \<Rightarrow> message list" where
  "auxiliary_console w a =
     (if \<not> jsOnly a
      then styles_console w a @ (if binary a then binary_console else [])
      else []) @
     [Banner ''Running post-build setup.''] @
     showProgress ''Generating type declarations.''
       (''Generated declarations for '' @ decimal (length (allFiles w a)) @ '' files.'') @
     [Log [], Log ''Build complete.'']"

definition files_console :: "world \<Rightarrow> build_args \<Rightarrow> message list" where
  "files_console w a =
     compile_console a @ normalize_console w a @ patch_console w @
     (if runtimeOnly_eff a then [] else auxiliary_console w a)"

definition console :: "world \<Rightarrow> build_args \<Rightarrow> message list" where
  "console w a = (if truthy_stdin (stdin a) then stdin_console a else files_console w a)"

subsection \<open>The specifier normalizer\<close>

text \<open>
  Modelled from the spec: \<open>normalizeImportSpecifiers\<close> (commands/normalize) is imported by
  the build command and its source is not available. The spec (4.3) describes it: a
  shallow scan finds the import and export specifier clauses of an emitted file; a relative
  specifier that is not already resolvable (it lacks the canonical compiled extension and
  does not already name an existing directory with an index file) is rewritten, by
  appending the canonical extension, or \<open>/index\<close> plus the extension for a directory
  target; a bare package specifier is untouched; an unresolvable specifier is left
  unmodified and reported as a warning. An emitted file is represented by the result of
  the scan: the specifier clauses and the text between them. The output tree the
  specifiers are resolved against is a parameter.
\<close>

datatype segment = Other string | Specifier string

record output_tree =
  indexedDirectory :: "string \<Rightarrow> bool"
  directoryTarget :: "string \<Rightarrow> bool"
  fileTarget :: "string \<Rightarrow> bool"

definition isRelative :: "string \<Rightarrow> bool" where
  "isRelative s = (startsWith s ''./'' \<or> startsWith s ''../'')"

definition alreadyResolvable :: "output_tree \<Rightarrow> string \<Rightarrow> bool" where
  "alreadyResolvable t s = (endsWith s ''.js'' \<or> indexedDirectory t s)"

definition normalizeSpecifier :: "output_tree \<Rightarrow> string \<Rightarrow> string" where
  "normalizeSpecifier t s =
     (if \<not> isRelative s then s
      else if alreadyResolvable t s then s
      else if directoryTarget t s then s @ ''/index.js''
      else if fileTarget t (s @ ''.js'') then s @ ''.js''
      else s)"

definition unresolvable :: "output_tree \<Rightarrow> string \<Rightarrow> bool" where
  "unresolvable t s =
     (isRelative s \<and> \<not> alreadyResolvable t s \<and> \<not> directoryTarget t s \<and>
      \<not> fileTarget t (s @ ''.js''))"

fun normalizeSegment :: "output_tree \<Rightarrow> segment \<Rightarrow> segment" where
  "normalizeSegment t (Other text) = Other text"
| "normalizeSegment t (Specifier s) = Specifier (normalizeSpecifier t s)"

fun warning :: "output_tree \<Rightarrow> segment \<Rightarrow> string list" where
  "warning t (Other text) = []"
| "warning t (Specifier s) = (if unresolvable t s then [s] else [])"

definition normalizeImportSpecifiers ::
  "output_tree \<Rightarrow> segment list \<Rightarrow> segment list \<times> string list" where
  "normalizeImportSpecifiers t file =
     (map (normalizeSegment t) file, concat (map (warning t) file))"

fun render_segment :: "segment \<Rightarrow> string" where
  "render_segment (Other text) = text"
| "render_segment (Specifier s) = json_stringify s"

definition render :: "segment list \<Rightarrow> string" where
  "render file = concat (map render_segment file)"

subsection \<open>A concrete project\<close>

text \<open>
  A small project used to run the model: sources under \<open>/proj/src\<close>, one stale file in the
  output directory, and regular expressions that recognise the usual extensions.
\<close>

definition strip_suffix :: "string \<Rightarrow> string \<Rightarrow> string \<Rightarrow> string" where
  "strip_suffix suf s rep = (if endsWith s suf then take (length s - length suf) s @ rep else s)"

definition example_isTs :: regex where
  "example_isTs =
     \<lparr> rx_test = (\<lambda>f. endsWith f ''.ts'' \<or> endsWith f ''.tsx''),
       rx_replace = (\<lambda>s rep. if endsWith s ''.tsx'' then strip_suffix ''.tsx'' s rep
                              else strip_suffix ''.ts'' s rep) \<rparr>"

definition example_isTsxOrJsx :: regex where
  "example_isTsxOrJsx =
     \<lparr> rx_test = (\<lambda>f. endsWith f ''.tsx'' \<or> endsWith f ''.jsx''),
       rx_replace = (\<lambda>s rep. if endsWith s ''.tsx'' then strip_suffix ''.tsx'' s rep
                              else strip_suffix ''.jsx'' s rep) \<rparr>"

definition example_isJsOrTs :: regex where
  "example_isJsOrTs =
     \<lparr> rx_test = (\<lambda>f. endsWith f ''.ts'' \<or> endsWith f ''.tsx'' \<or> endsWith f ''.js'' \<or>
                       endsWith f ''.jsx''),
       rx_replace = (\<lambda>s rep. s) \<rparr>"

definition example_world :: world where
  "example_world =
     \<lparr> penv = Map.empty,
       distFiles = [''./dist/old.js''],
       cwd = ''/proj'', srcDir = ''/proj/src'', outDir = ''/proj/dist'',
       pkgJson = \<lparr> pkg_platform = Some ''node'', pkg_style = None \<rparr>,
       getTsconfig = (\<lambda>p. None),
       tempCopy = ''/tmp/tsconfig.1.json'',
       ESM_REQUIRE_SHIM = ''shim'',
       readStdin = [],
       transform = (\<lambda>source opts. source),
       globSync = (\<lambda>pattern. if pattern = ''src/**/*''
                     then [''src/index.ts'', ''src/types.d.ts'', ''src/App.tsx'', ''src/logo.png'']
                     else []),
       resolvePath = (\<lambda>p. if startsWith p ''/'' then p else ''/proj/'' @ p),
       isAbsolute = (\<lambda>p. startsWith p ''/''),
       isTs = example_isTs, isTsxOrJsx = example_isTsxOrJsx, isJsOrTs = example_isJsOrTs,
       readFile = (\<lambda>p. ''export {}''),
       getEmittedFile = (\<lambda>p. replace_str p ''/proj/src'' ''/proj/dist''),
       dirname = (\<lambda>p. rev (drop 1 (dropWhile (\<lambda>c. c \<noteq> CHR ''/'') (rev p)))),
       rewrotePkgJson = True,
       existsSync = (\<lambda>p. False),
       distCssFiles = [] \<rparr>"

text \<open>A literal build that returns its text: \<open>build({ stdin, stdinFile, noWrite: true })\<close>.\<close>

definition literal_noWrite_args :: build_args where
  "literal_noWrite_args =
     default_args\<lparr> stdin := StdinText ''console.log(42)'',
                   stdinFile := Some ''src/stdin-nowrite.ts'', noWrite := True \<rparr>"

text \<open>A literal build without the companion file name.\<close>

definition literal_nofile_args :: build_args where
  "literal_nofile_args = default_args\<lparr> stdin := StdinText ''console.log(42)'' \<rparr>"

text \<open>The literal build of the integration test: \<open>build({ stdin, stdinFile })\<close>.\<close>

definition literal_write_args :: build_args where
  "literal_write_args =
     default_args\<lparr> stdin := StdinText ''console.log(42)'',
                   stdinFile := Some ''src/stdin-nobundle.ts'' \<rparr>"

text \<open>A build of one file given by its absolute path.\<close>

definition single_file_args :: build_args where
  "single_file_args = default_args\<lparr> input := ''/proj/src/index.ts'' \<rparr>"

definition single_file_noclear_args :: build_args where
  "single_file_noclear_args = single_file_args\<lparr> clear := False \<rparr>"

text \<open>A bundling build, a development build, and runtime-only builds.\<close>

definition bundle_args :: build_args where
  "bundle_args = default_args\<lparr> bundle_arg := True \<rparr>"


definition runtimeOnly_args :: build_args where
  "runtimeOnly_args = default_args\<lparr> runtimeOnly := True \<rparr>"

definition literal_runtimeOnly_args :: build_args where
  "literal_runtimeOnly_args = literal_write_args\<lparr> runtimeOnly := True \<rparr>"

text \<open>The project with \<open>NO_REWRITES\<close> set to the empty string, and to \<open>1\<close>.\<close>

definition world_NO_REWRITES_empty :: world where
  "world_NO_REWRITES_empty = example_world\<lparr> penv := [''NO_REWRITES'' \<mapsto> []] \<rparr>"

definition world_NO_REWRITES_1 :: world where
  "world_NO_REWRITES_1 = example_world\<lparr> penv := [''NO_REWRITES'' \<mapsto> ''1''] \<rparr>"

definition example_tree :: output_tree where
  "example_tree =
     \<lparr> indexedDirectory = (\<lambda>s. False),
       directoryTarget = (\<lambda>s. s = ''./utils''),
       fileTarget = (\<lambda>s. s = ''./b.js'') \<rparr>"

definition example_emitted :: "segment list" where
  "example_emitted =
     [Other ''import {b} from '', Specifier ''./b'', Other ''; import u from '',
      Specifier ''./utils'', Other ''; import fs from '', Specifier ''fs'',
      Other ''; import c from '', Specifier ''./missing'', Other '';'']"

section \<open>Properties of the build operation\<close>

subsection \<open>The two shapes of a build\<close>

lemma build_literal:
  "truthy_stdin (stdin a) \<Longrightarrow>
     build w a = (fst (stdin_build w a), entry_effects w a @ snd (stdin_build w a))"
  by (simp add: build_def split: prod.splits)

lemma build_files:
  "\<not> truthy_stdin (stdin a) \<Longrightarrow>
     build w a = (Returned None, entry_effects w a @ snd (files_build w a))"
  by (simp add: build_def files_build_def)

lemma stdin_build_exit:
  "\<not> truthy (stdinFile a) \<Longrightarrow> stdin_build w a = (Exited 1, [])"
  by (cases "stdinFile a") (simp_all add: stdin_build_def)

lemma stdin_build_noWrite:
  assumes "stdinFile a = Some file" and "file \<noteq> []" and "noWrite a"
  shows "stdin_build w a =
           (Returned (Some (transform w (fst (stdinSource w a)) (transformOptions a file))),
            snd (stdinSource w a) @
            [Transform (fst (stdinSource w a)) (transformOptions a file)])"
  using assms by (simp add: stdin_build_def split: prod.splits)

subsection \<open>What each stage can contain\<close>

lemma in_entry_effects:
  "e \<in> set (entry_effects w a) \<Longrightarrow>
     e = SetEnv ''NODE_ENV'' (node_env a) \<or>
     (clear a \<and> (\<exists>p \<in> set (distFiles w). e = Unlink p)) \<or>
     e = WriteFile (tempCopy w) (tsconfigWithOverrides w a)"
  by (auto simp: entry_effects_def split: if_splits)

lemma in_stdin_build:
  "e \<in> set (snd (stdin_build w a)) \<Longrightarrow>
     e = ReadStdin \<or> (\<exists>s opts. e = Transform s opts) \<or>
     (\<exists>s f. e = Esbuild (buildOptions w a) (StdinEntry s f))"
  by (auto simp: stdin_build_def stdinSource_def
      split: option.splits if_splits prod.splits stdin_arg.splits)

lemma in_tsx_effects:
  "e \<in> set (tsx_effects w a) \<Longrightarrow>
     \<exists>f \<in> set (compilableTsxFiles w a).
       e = Esbuild (buildOptions w a) (StdinEntry (REACT_IMPORTS @ readFile w f) f)"
  by (auto simp: tsx_effects_def)

lemma in_copy_effects:
  "e \<in> set (copy_effects w a) \<Longrightarrow> (\<exists>p. e = Mkdir p) \<or> (\<exists>p q. e = CopyFile p q)"
  by (auto simp: copy_effects_def)

lemma in_normalize_effects:
  "e \<in> set (normalize_effects w a) \<Longrightarrow> \<exists>p. e = NormalizeImportSpecifiers p"
  by (auto simp: normalize_effects_def split: if_splits)

lemma in_auxiliary_effects:
  "e \<in> set (auxiliary_effects w a) \<Longrightarrow>
     (\<exists>p q d. e = BuildCssEntryPoint p q d) \<or> e = BuildBinaries \<or>
     e = EmitTsDeclarations (length (allFiles w a))"
  by (auto simp: auxiliary_effects_def styles_effects_def split: if_splits)

lemma map_filter_append:
  "List.map_filter f (xs @ ys) = List.map_filter f xs @ List.map_filter f ys"
  by (simp add: List.map_filter_def)

lemma map_filter_none:
  "(\<And>e. e \<in> set tr \<Longrightarrow> f e = None) \<Longrightarrow> List.map_filter f tr = []"
  by (induction tr) (simp_all add: List.map_filter_simps)

subsection \<open>File-system mutations of a literal build\<close>

lemma filter_fs_entry:
  "filter fs_mutation (entry_effects w a) =
     (if clear a then map Unlink (distFiles w) else []) @
     [WriteFile (tempCopy w) (tsconfigWithOverrides w a)]"
  by (simp add: entry_effects_def filter_map comp_def)

lemma filter_fs_stdinSource: "filter fs_mutation (snd (stdinSource w a)) = []"
  by (simp add: stdinSource_def split: stdin_arg.splits)

text \<open>
  C1, as the code has it. A build from literal input with a companion file name and
  \<open>noWrite\<close> returns the text the transform engine produces for that input. It writes no
  output file and starts no engine build; the file-system mutations it does perform are
  those every build performs at entry: the files matched by \<open>./dist/*\<close> are unlinked when
  \<open>clear\<close> is set (the default), and the derived compiler configuration is written to
  the temporary directory.
\<close>

theorem literal_noWrite_build:
  assumes "truthy_stdin (stdin a)" and "stdinFile a = Some file" and "file \<noteq> []"
    and "noWrite a"
  shows "fst (build w a) =
           Returned (Some (transform w (fst (stdinSource w a)) (transformOptions a file))) \<and>
         trace w a =
           SetEnv ''NODE_ENV'' (if dev a then ''development'' else ''production'') #
           (if clear a then map Unlink (distFiles w) else []) @
           [WriteFile (tempCopy w) (tsconfigWithOverrides w a)] @
           snd (stdinSource w a) @
           [Transform (fst (stdinSource w a)) (transformOptions a file)] \<and>
         filter fs_mutation (trace w a) =
           (if clear a then map Unlink (distFiles w) else []) @
           [WriteFile (tempCopy w) (tsconfigWithOverrides w a)]"
proof -
  have shape: "build w a =
      (Returned (Some (transform w (fst (stdinSource w a)) (transformOptions a file))),
       entry_effects w a @ snd (stdinSource w a) @
       [Transform (fst (stdinSource w a)) (transformOptions a file)])"
    using assms by (simp add: build_literal stdin_build_noWrite)
  have "filter fs_mutation (trace w a) =
          (if clear a then map Unlink (distFiles w) else []) @
          [WriteFile (tempCopy w) (tsconfigWithOverrides w a)]"
    by (simp add: trace_def shape filter_fs_entry filter_fs_stdinSource)
  moreover have "trace w a =
          SetEnv ''NODE_ENV'' (if dev a then ''development'' else ''production'') #
          (if clear a then map Unlink (distFiles w) else []) @
          [WriteFile (tempCopy w) (tsconfigWithOverrides w a)] @
          snd (stdinSource w a) @
          [Transform (fst (stdinSource w a)) (transformOptions a file)]"
    by (simp add: trace_def shape entry_effects_def node_env_def)
  ultimately show ?thesis
    by (simp add: shape)
qed

theorem literal_noWrite_build_witness:
  "filter fs_mutation (trace example_world literal_noWrite_args) =
     [Unlink ''./dist/old.js'',
      WriteFile ''/tmp/tsconfig.1.json''
        \<lparr> other_fields = [],
          compilerOptions = [(''jsx'', ''react''), (''jsxFactory'', ''React.createElement'')] \<rparr>]
   \<and> fst (build example_world literal_noWrite_args) = Returned (Some ''console.log(42)'')"
  using literal_noWrite_build [of literal_noWrite_args "''src/stdin-nowrite.ts''" example_world]
  by (simp add: literal_noWrite_args_def default_args_def example_world_def
      stdinSource_def tsconfigWithOverrides_def)

text \<open>
  C1, as the spec states it, fails: the literal, write-suppressed build of the example
  project with default flags does mutate the file system.
\<close>

theorem literal_noWrite_build_mutates:
  "truthy_stdin (stdin literal_noWrite_args) \<and> truthy (stdinFile literal_noWrite_args) \<and>
   noWrite literal_noWrite_args \<and>
   \<not> no_fs_mutation (trace example_world literal_noWrite_args)"
  by code_simp

text \<open>
  C2, as the code has it. A build from literal input without a companion file name ends
  the process with status 1 before any compile invocation and before any write into the
  output tree. The entry steps have been performed by then: the files matched by
  \<open>./dist/*\<close> are unlinked when \<open>clear\<close> is set, and the derived compiler configuration
  is written.
\<close>

theorem literal_without_file_exits:
  assumes "truthy_stdin (stdin a)" and "\<not> truthy (stdinFile a)"
  shows "build w a =
           (Exited 1,
            SetEnv ''NODE_ENV'' (if dev a then ''development'' else ''production'') #
            (if clear a then map Unlink (distFiles w) else []) @
            [WriteFile (tempCopy w) (tsconfigWithOverrides w a)])"
  using assms by (simp add: build_literal stdin_build_exit entry_effects_def node_env_def)

theorem literal_without_file_exits_witness:
  "build example_world literal_nofile_args =
     (Exited 1,
      [SetEnv ''NODE_ENV'' ''production'', Unlink ''./dist/old.js'',
       WriteFile ''/tmp/tsconfig.1.json''
         \<lparr> other_fields = [],
           compilerOptions = [(''jsx'', ''react''), (''jsxFactory'', ''React.createElement'')] \<rparr>])"
  using literal_without_file_exits [of literal_nofile_args example_world]
  by (simp add: literal_nofile_args_def default_args_def example_world_def
      tsconfigWithOverrides_def)

text \<open>
  C2, as the spec states it, fails: files have been deleted and written by the time the
  process ends.
\<close>

theorem literal_without_file_mutates:
  "truthy_stdin (stdin literal_nofile_args) \<and> \<not> truthy (stdinFile literal_nofile_args) \<and>
   fst (build example_world literal_nofile_args) = Exited 1 \<and>
   \<not> no_fs_mutation (trace example_world literal_nofile_args)"
  by code_simp

subsection \<open>Effects of a build from files\<close>

lemma in_files_build:
  "e \<in> set (snd (files_build w a)) \<Longrightarrow>
     (\<exists>p f r. e = Rm p f r) \<or> (\<exists>en. e = Esbuild (buildOptions w a) en) \<or>
     (\<exists>p. e = Mkdir p) \<or> (\<exists>p q. e = CopyFile p q) \<or>
     (\<exists>p. e = NormalizeImportSpecifiers p) \<or> e = ForceModuleTypeInDist (format a) \<or>
     (\<not> runtimeOnly_eff a \<and>
       ((\<exists>p q d. e = BuildCssEntryPoint p q d) \<or> e = BuildBinaries \<or>
        e = EmitTsDeclarations (length (allFiles w a))))"
  by (auto simp: files_build_def clean_effects_def ts_effects_def
      dest: in_tsx_effects in_copy_effects in_normalize_effects in_auxiliary_effects
      split: if_splits)

lemma filter_none: "(\<And>e. e \<in> set tr \<Longrightarrow> \<not> P e) \<Longrightarrow> filter P tr = []"
  by (induction tr) simp_all

subsection \<open>Deletions\<close>

lemma deleted_paths_Nil: "deleted_paths [] = []"
  by (simp add: deleted_paths_def List.map_filter_simps)

lemma deleted_paths_Cons:
  "deleted_paths (e # tr) =
     (case deletion e of None \<Rightarrow> deleted_paths tr | Some p \<Rightarrow> p # deleted_paths tr)"
  by (cases "deletion e") (simp_all add: deleted_paths_def List.map_filter_simps)

lemma deleted_paths_append:
  "deleted_paths (xs @ ys) = deleted_paths xs @ deleted_paths ys"
  by (simp add: deleted_paths_def map_filter_append)

lemma deleted_entry:
  "deleted_paths (entry_effects w a) = (if clear a then distFiles w else [])"
  by (simp add: deleted_paths_def entry_effects_def List.map_filter_simps map_filter_append
      List.map_filter_def filter_map comp_def)

lemma deleted_tsx: "deleted_paths (tsx_effects w a) = []"
  unfolding deleted_paths_def by (rule map_filter_none) (auto dest: in_tsx_effects)

lemma deleted_copy: "deleted_paths (copy_effects w a) = []"
  unfolding deleted_paths_def by (rule map_filter_none) (auto dest: in_copy_effects)

lemma deleted_normalize: "deleted_paths (normalize_effects w a) = []"
  unfolding deleted_paths_def by (rule map_filter_none) (auto dest: in_normalize_effects)

lemma deleted_auxiliary: "deleted_paths (auxiliary_effects w a) = []"
  unfolding deleted_paths_def by (rule map_filter_none) (auto dest: in_auxiliary_effects)

lemma deleted_files_build:
  "deleted_paths (snd (files_build w a)) =
     (if isAbsolute w (input a) then [outfile w a] else [outDir w]) @ [tempCopy w]"
  by (simp add: files_build_def deleted_paths_append deleted_tsx deleted_copy
      deleted_normalize deleted_auxiliary deleted_paths_Nil deleted_paths_Cons
      clean_effects_def ts_effects_def)

lemma recursively_deleted_Nil: "recursively_deleted [] = []"
  by (simp add: recursively_deleted_def List.map_filter_simps)

lemma recursively_deleted_Cons:
  "recursively_deleted (e # tr) =
     (case recursive_deletion e of None \<Rightarrow> recursively_deleted tr
      | Some p \<Rightarrow> p # recursively_deleted tr)"
  by (cases "recursive_deletion e")
    (simp_all add: recursively_deleted_def List.map_filter_simps)

lemma recursively_deleted_append:
  "recursively_deleted (xs @ ys) = recursively_deleted xs @ recursively_deleted ys"
  by (simp add: recursively_deleted_def map_filter_append)

lemma recursive_entry: "recursively_deleted (entry_effects w a) = []"
  unfolding recursively_deleted_def by (rule map_filter_none) (auto dest: in_entry_effects)

lemma recursive_tsx: "recursively_deleted (tsx_effects w a) = []"
  unfolding recursively_deleted_def by (rule map_filter_none) (auto dest: in_tsx_effects)

lemma recursive_copy: "recursively_deleted (copy_effects w a) = []"
  unfolding recursively_deleted_def by (rule map_filter_none) (auto dest: in_copy_effects)

lemma recursive_normalize: "recursively_deleted (normalize_effects w a) = []"
  unfolding recursively_deleted_def
  by (rule map_filter_none) (auto dest: in_normalize_effects)

lemma recursive_auxiliary: "recursively_deleted (auxiliary_effects w a) = []"
  unfolding recursively_deleted_def
  by (rule map_filter_none) (auto dest: in_auxiliary_effects)

lemma recursive_files_build:
  "recursively_deleted (snd (files_build w a)) =
     (if isAbsolute w (input a) then [] else [outDir w])"
  by (simp add: files_build_def recursively_deleted_append recursive_tsx recursive_copy
      recursive_normalize recursive_auxiliary recursively_deleted_Nil
      recursively_deleted_Cons clean_effects_def ts_effects_def)

text \<open>
  C3, as the code has it. In a build from files whose input is an absolute path, the
  deletions are, in order: the files matched by \<open>./dist/*\<close> when \<open>clear\<close> is set (the
  default), the destination computed for the input, and the temporary configuration;
  nothing is deleted recursively. With \<open>clear\<close> off, the destination is therefore the
  only path of the output tree that is deleted. In a build from files whose input is not
  an absolute path, the output directory is deleted recursively, and only the entry steps
  (the environment assignment, the unlinking of \<open>./dist/*\<close>, the write of the temporary
  configuration) come before that deletion: every compile invocation, copy and write into
  the output tree comes after it.
\<close>

theorem invalidation_policies:
  assumes "\<not> truthy_stdin (stdin a)"
  shows "(isAbsolute w (input a) \<longrightarrow>
            deleted_paths (trace w a) =
              (if clear a then distFiles w else []) @ [outfile w a, tempCopy w] \<and>
            recursively_deleted (trace w a) = []) \<and>
         (\<not> isAbsolute w (input a) \<longrightarrow>
            (\<exists>rest. trace w a =
               SetEnv ''NODE_ENV'' (if dev a then ''development'' else ''production'') #
               (if clear a then map Unlink (distFiles w) else []) @
               [WriteFile (tempCopy w) (tsconfigWithOverrides w a), Rm (outDir w) True True] @
               rest) \<and>
            recursively_deleted (trace w a) = [outDir w])"
proof (intro conjI impI)
  assume abs: "isAbsolute w (input a)"
  show "deleted_paths (trace w a) =
          (if clear a then distFiles w else []) @ [outfile w a, tempCopy w]"
    using assms abs
    by (simp add: trace_def build_files deleted_paths_append deleted_entry deleted_files_build)
  show "recursively_deleted (trace w a) = []"
    using assms abs
    by (simp add: trace_def build_files recursively_deleted_append recursive_entry
        recursive_files_build)
next
  assume rel: "\<not> isAbsolute w (input a)"
  have "trace w a =
          SetEnv ''NODE_ENV'' (if dev a then ''development'' else ''production'') #
          (if clear a then map Unlink (distFiles w) else []) @
          [WriteFile (tempCopy w) (tsconfigWithOverrides w a), Rm (outDir w) True True] @
          tl (snd (files_build w a))"
    using assms rel
    by (simp add: trace_def build_files entry_effects_def node_env_def files_build_def
        clean_effects_def)
  then show "\<exists>rest. trace w a =
               SetEnv ''NODE_ENV'' (if dev a then ''development'' else ''production'') #
               (if clear a then map Unlink (distFiles w) else []) @
               [WriteFile (tempCopy w) (tsconfigWithOverrides w a), Rm (outDir w) True True] @
               rest"
    by blast
  show "recursively_deleted (trace w a) = [outDir w]"
    using assms rel
    by (simp add: trace_def build_files recursively_deleted_append recursive_entry
        recursive_files_build)
qed

theorem invalidation_policies_witness:
  "deleted_paths (trace example_world single_file_noclear_args) =
     [''/proj/dist/index.js'', ''/tmp/tsconfig.1.json''] \<and>
   recursively_deleted (trace example_world single_file_noclear_args) = [] \<and>
   recursively_deleted (trace example_world default_args) = [''/proj/dist'']"
proof -
  have abs: "isAbsolute example_world (input single_file_noclear_args)"
    and rel: "\<not> isAbsolute example_world (input default_args)"
    and files: "\<not> truthy_stdin (stdin single_file_noclear_args)"
      "\<not> truthy_stdin (stdin default_args)"
    by (simp_all add: single_file_noclear_args_def single_file_args_def default_args_def
        example_world_def)
  have out: "outfile example_world single_file_noclear_args = ''/proj/dist/index.js''"
    by code_simp
  show ?thesis
    using invalidation_policies [OF files(1), of example_world]
      invalidation_policies [OF files(2), of example_world] abs rel out
    by (simp add: single_file_noclear_args_def single_file_args_def default_args_def
        example_world_def)
qed

text \<open>
  C3, as the spec states it, fails: with default flags, the build of one file given by
  its absolute path also unlinks the stale file of the output directory, which is not the
  destination of its input.
\<close>

theorem single_file_build_unlinks_stale:
  "isAbsolute example_world (input single_file_args) \<and>
   \<not> truthy_stdin (stdin single_file_args) \<and>
   outfile example_world single_file_args = ''/proj/dist/index.js'' \<and>
   stray_deletions example_world single_file_args = [''./dist/old.js'']"
  by code_simp

text \<open>
  No build from literal input removes anything with \<open>rm\<close>: the temporary configuration
  it has written at entry is still there when it returns or exits.
\<close>

lemma literal_build_keeps_tempCopy:
  assumes "truthy_stdin (stdin a)"
  shows "WriteFile (tempCopy w) (tsconfigWithOverrides w a) \<in> set (trace w a)"
    and "Rm p f r \<notin> set (trace w a)"
  using assms
  by (auto simp: trace_def build_literal entry_effects_def dest: in_stdin_build)

text \<open>
  C4 fails on the code. The literal build of the integration test writes the temporary
  configuration and returns without deleting it: the only path it deletes is the stale
  file of the output directory. The build from files of the same project does delete it.
\<close>

theorem literal_build_leaks_tempCopy:
  "WriteFile (tempCopy example_world) (tsconfigWithOverrides example_world literal_write_args)
     \<in> set (trace example_world literal_write_args) \<and>
   deleted_paths (trace example_world literal_write_args) = [''./dist/old.js''] \<and>
   tempCopy example_world \<in> set (deleted_paths (trace example_world default_args))"
  by code_simp

subsection \<open>Declaration files\<close>

lemma extname_tail_no_dot: "extname p = c # rest \<Longrightarrow> CHR ''.'' \<notin> set rest"
  by (auto simp: extname_def Let_def split: if_splits dest: set_takeWhileD)

lemma extname_not_dts: "extname p \<noteq> ''.d.ts''"
proof
  assume "extname p = ''.d.ts''"
  then have "CHR ''.'' \<notin> set ''d.ts''" by (rule extname_tail_no_dot)
  then show False by simp
qed

text \<open>The filter of line 236 removes nothing: no extension has two dots.\<close>

lemma allFiles_found:
  "allFiles w a =
     (if isAbsolute w (input a) \<and> globSync w (input a) = [] then [input a]
      else map (resolvePath w) (globSync w (input a)))"
  by (simp add: allFiles_def extname_not_dts)

lemma compiled_files_Nil: "compiled_files [] = []"
  by (simp add: compiled_files_def)

lemma compiled_files_Cons: "compiled_files (e # tr) = compile_inputs e @ compiled_files tr"
  by (simp add: compiled_files_def)

lemma compiled_files_append:
  "compiled_files (xs @ ys) = compiled_files xs @ compiled_files ys"
  by (simp add: compiled_files_def)

lemma compiled_none:
  "(\<And>e. e \<in> set tr \<Longrightarrow> compile_inputs e = []) \<Longrightarrow> compiled_files tr = []"
  by (induction tr) (simp_all add: compiled_files_def)

lemma compiled_entry: "compiled_files (entry_effects w a) = []"
  by (rule compiled_none) (auto dest: in_entry_effects)

lemma compiled_copy: "compiled_files (copy_effects w a) = []"
  by (rule compiled_none) (auto dest: in_copy_effects)

lemma compiled_normalize: "compiled_files (normalize_effects w a) = []"
  by (rule compiled_none) (auto dest: in_normalize_effects)

lemma compiled_auxiliary: "compiled_files (auxiliary_effects w a) = []"
  by (rule compiled_none) (auto dest: in_auxiliary_effects)

lemma compiled_tsx: "compiled_files (tsx_effects w a) = compilableTsxFiles w a"
  by (simp add: compiled_files_def tsx_effects_def comp_def)

lemma compiled_files_build:
  "compiled_files (snd (files_build w a)) =
     compilableTsxFiles w a @ filter (\<lambda>file. \<not> endsWith file ''.d.ts'') (tsJsInput w a)"
  by (simp add: files_build_def compiled_files_append compiled_files_Cons compiled_files_Nil
      compiled_tsx compiled_copy compiled_normalize compiled_auxiliary ts_effects_def
      clean_effects_def)

lemma compiled_not_declaration:
  assumes "\<not> truthy_stdin (stdin a)" and "p \<in> set (compiled_files (trace w a))"
  shows "\<not> endsWith p ''.d.ts''"
  using assms
  by (auto simp: trace_def build_files compiled_files_append compiled_entry
      compiled_files_build compilableTsxFiles_def)

lemma last_trace_report:
  assumes "\<not> truthy_stdin (stdin a)" and "\<not> runtimeOnly_eff a"
  shows "last (trace w a) = EmitTsDeclarations (length (allFiles w a))"
  using assms by (simp add: trace_def build_files files_build_def auxiliary_effects_def)

lemma reports_Nil: "reports [] = []"
  by (simp add: reports_def List.map_filter_simps)

lemma reports_Cons:
  "reports (e # tr) = (case report e of None \<Rightarrow> reports tr | Some n \<Rightarrow> n # reports tr)"
  by (cases "report e") (simp_all add: reports_def List.map_filter_simps)

lemma reports_append: "reports (xs @ ys) = reports xs @ reports ys"
  by (simp add: reports_def map_filter_append)

lemma reports_entry: "reports (entry_effects w a) = []"
  unfolding reports_def by (rule map_filter_none) (auto dest: in_entry_effects)

lemma reports_tsx: "reports (tsx_effects w a) = []"
  unfolding reports_def by (rule map_filter_none) (auto dest: in_tsx_effects)

lemma reports_copy: "reports (copy_effects w a) = []"
  unfolding reports_def by (rule map_filter_none) (auto dest: in_copy_effects)

lemma reports_normalize: "reports (normalize_effects w a) = []"
  unfolding reports_def by (rule map_filter_none) (auto dest: in_normalize_effects)

lemma reports_styles: "reports (styles_effects w a) = []"
  unfolding reports_def
  by (rule map_filter_none) (auto simp: styles_effects_def split: if_splits)

lemma reports_auxiliary: "reports (auxiliary_effects w a) = [length (allFiles w a)]"
  by (simp add: auxiliary_effects_def reports_append reports_styles reports_Cons reports_Nil)

lemma reports_files_build:
  "reports (snd (files_build w a)) =
     (if runtimeOnly_eff a then [] else [length (allFiles w a)])"
  by (simp add: files_build_def reports_append reports_tsx reports_copy reports_normalize
      reports_auxiliary reports_Cons reports_Nil clean_effects_def ts_effects_def)

lemma reports_trace:
  assumes "\<not> truthy_stdin (stdin a)"
  shows "reports (trace w a) = (if runtimeOnly_eff a then [] else [length (allFiles w a)])"
  using assms
  by (simp add: trace_def build_files reports_append reports_entry reports_files_build)

text \<open>
  C5, as the code has it. In a build from files, a file found by the pattern whose
  resolved path ends in \<open>.d.ts\<close> is handed to no engine invocation, neither as an entry
  point nor as the file an in-memory buffer stands for. It is nevertheless an element of
  \<open>allFiles\<close>, whose length is the number of discovered files. When the build reaches
  the declaration stage, that is, when neither \<open>dev\<close> nor \<open>runtimeOnly\<close> is set, this
  number is the one its final report prints, and the report is its last effect. When
  \<open>dev\<close> or \<open>runtimeOnly\<close> is set, there is no report.
\<close>

theorem declaration_files_excluded_and_counted:
  assumes "\<not> truthy_stdin (stdin a)" and "f \<in> set (globSync w (input a))"
    and "endsWith (resolvePath w f) ''.d.ts''"
  shows "resolvePath w f \<notin> set (compiled_files (trace w a)) \<and>
         resolvePath w f \<in> set (allFiles w a) \<and>
         length (allFiles w a) = length (globSync w (input a)) \<and>
         (\<not> runtimeOnly_eff a \<longrightarrow>
            last (trace w a) = EmitTsDeclarations (length (globSync w (input a)))) \<and>
         reports (trace w a) =
           (if dev a \<or> runtimeOnly a then [] else [length (globSync w (input a))])"
proof -
  from assms(2) have nonempty: "globSync w (input a) \<noteq> []" by auto
  then have all: "allFiles w a = map (resolvePath w) (globSync w (input a))"
    by (simp add: allFiles_found)
  have "resolvePath w f \<notin> set (compiled_files (trace w a))"
    using compiled_not_declaration [OF assms(1)] assms(3) by blast
  moreover have "resolvePath w f \<in> set (allFiles w a)"
    using assms(2) all by simp
  moreover have len: "length (allFiles w a) = length (globSync w (input a))"
    using all by simp
  moreover have "reports (trace w a) =
      (if dev a \<or> runtimeOnly a then [] else [length (globSync w (input a))])"
    using reports_trace [OF assms(1), of w] len by (auto simp: runtimeOnly_eff_def)
  ultimately show ?thesis
    using last_trace_report [OF assms(1)] by simp
qed

theorem declaration_files_excluded_and_counted_witness:
  "''/proj/src/types.d.ts'' \<notin> set (compiled_files (trace example_world default_args)) \<and>
   ''/proj/src/types.d.ts'' \<in> set (allFiles example_world default_args) \<and>
   last (trace example_world default_args) = EmitTsDeclarations 4 \<and>
   reports (trace example_world default_args) = [4]"
proof -
  have h1: "\<not> truthy_stdin (stdin default_args)"
    by (simp add: default_args_def)
  have h2: "''src/types.d.ts'' \<in> set (globSync example_world (input default_args))"
    by (simp add: default_args_def example_world_def)
  have h3: "endsWith (resolvePath example_world ''src/types.d.ts'') ''.d.ts''"
    by (simp add: example_world_def endsWith_def)
  have h4: "\<not> runtimeOnly_eff default_args"
    by (simp add: default_args_def runtimeOnly_eff_def)
  show ?thesis
    using declaration_files_excluded_and_counted [OF h1 h2 h3] h4
    by (simp add: example_world_def default_args_def)
qed

text \<open>
  C5, as the spec states it, fails: the runtime-only build of the example project
  discovers the declaration file and reports no count at all.
\<close>

theorem runtimeOnly_build_reports_nothing:
  "\<not> truthy_stdin (stdin runtimeOnly_args) \<and>
   ''src/types.d.ts'' \<in> set (globSync example_world (input runtimeOnly_args)) \<and>
   endsWith (resolvePath example_world ''src/types.d.ts'') ''.d.ts'' \<and>
   reports (trace example_world runtimeOnly_args) = []"
  by code_simp

subsection \<open>Idempotence of the specifier normalizer\<close>

lemma endsWith_append: "endsWith (s @ suf) suf"
  by (simp add: endsWith_def)

lemma endsWith_append2: "endsWith t suf \<Longrightarrow> endsWith (s @ t) suf"
  by (auto simp: endsWith_def)

lemma normalizeSpecifier_idem:
  "normalizeSpecifier t (normalizeSpecifier t s) = normalizeSpecifier t s"
proof -
  have js: "endsWith (s @ ''/index.js'') ''.js''"
    by (rule endsWith_append2) (simp add: endsWith_def)
  show ?thesis
    using js endsWith_append [of s "''.js''"]
    by (simp add: normalizeSpecifier_def alreadyResolvable_def)
qed

lemma normalizeSegment_idem:
  "normalizeSegment t (normalizeSegment t seg) = normalizeSegment t seg"
  by (cases seg) (simp_all add: normalizeSpecifier_idem)

text \<open>
  C6. Normalizing the output of the normalizer again, against the same output tree,
  changes nothing: the segments are the same, and so are the bytes they render to.
\<close>

theorem normalizeImportSpecifiers_idempotent:
  "fst (normalizeImportSpecifiers t (fst (normalizeImportSpecifiers t file))) =
     fst (normalizeImportSpecifiers t file) \<and>
   render (fst (normalizeImportSpecifiers t (fst (normalizeImportSpecifiers t file)))) =
     render (fst (normalizeImportSpecifiers t file))"
  by (simp add: normalizeImportSpecifiers_def comp_def normalizeSegment_idem)

theorem normalizeImportSpecifiers_idempotent_witness:
  "fst (normalizeImportSpecifiers example_tree example_emitted) =
     [Other ''import {b} from '', Specifier ''./b.js'', Other ''; import u from '',
      Specifier ''./utils/index.js'', Other ''; import fs from '', Specifier ''fs'',
      Other ''; import c from '', Specifier ''./missing'', Other '';''] \<and>
   fst (normalizeImportSpecifiers example_tree
     [Other ''import {b} from '', Specifier ''./b.js'', Other ''; import u from '',
      Specifier ''./utils/index.js'', Other ''; import fs from '', Specifier ''fs'',
      Other ''; import c from '', Specifier ''./missing'', Other '';'']) =
     [Other ''import {b} from '', Specifier ''./b.js'', Other ''; import u from '',
      Specifier ''./utils/index.js'', Other ''; import fs from '', Specifier ''fs'',
      Other ''; import c from '', Specifier ''./missing'', Other '';'']"
proof -
  have first: "fst (normalizeImportSpecifiers example_tree example_emitted) =
     [Other ''import {b} from '', Specifier ''./b.js'', Other ''; import u from '',
      Specifier ''./utils/index.js'', Other ''; import fs from '', Specifier ''fs'',
      Other ''; import c from '', Specifier ''./missing'', Other '';'']"
    by code_simp
  show ?thesis
    using normalizeImportSpecifiers_idempotent [of example_tree example_emitted] first
    by simp
qed

subsection \<open>The process environment\<close>









subsection \<open>Chunk splitting\<close>

lemma splitting_buildOptions:
  "bo_splitting (buildOptions w a) =
     (\<not> standalone a \<and> \<not> truthy_stdin (stdin a) \<and> format a = Esm \<and> bundle_eff a)"
  by (simp add: buildOptions_def common_options.defs build_options.defs)

lemma esbuild_options:
  assumes "Esbuild opts en \<in> set (trace w a)"
  shows "opts = buildOptions w a"
proof (cases "truthy_stdin (stdin a)")
  case True
  with assms show ?thesis
    by (auto simp: trace_def build_literal dest: in_entry_effects in_stdin_build)
next
  case False
  with assms show ?thesis
    by (auto simp: trace_def build_files dest: in_entry_effects in_files_build)
qed

text \<open>
  C8. Whenever an engine invocation of a build has chunk splitting enabled, the format
  is \<open>esm\<close>, the build is not standalone, and there is no literal input (and bundling
  was asked for). In every other configuration, therefore, no invocation splits.
\<close>

theorem splitting_only_for_esm_nonstandalone_files:
  assumes "Esbuild opts en \<in> set (trace w a)" and "bo_splitting opts"
  shows "format a = Esm \<and> \<not> standalone a \<and> \<not> truthy_stdin (stdin a) \<and> bundle_arg a"
  using assms esbuild_options [OF assms(1)]
  by (auto simp: splitting_buildOptions bundle_eff_def)

theorem splitting_only_for_esm_nonstandalone_files_witness:
  "Esbuild (buildOptions example_world bundle_args) (EntryPoints [''/proj/src/index.ts''])
     \<in> set (trace example_world bundle_args) \<and>
   bo_splitting (buildOptions example_world bundle_args) \<and>
   format bundle_args = Esm \<and> \<not> standalone bundle_args \<and>
   \<not> truthy_stdin (stdin bundle_args) \<and> bundle_arg bundle_args"
proof -
  have m: "Esbuild (buildOptions example_world bundle_args)
             (EntryPoints [''/proj/src/index.ts''])
           \<in> set (trace example_world bundle_args)"
    by code_simp
  have s: "bo_splitting (buildOptions example_world bundle_args)"
    by code_simp
  show ?thesis
    using splitting_only_for_esm_nonstandalone_files [OF m s] m s by simp
qed

subsection \<open>Runtime-only builds\<close>

lemma auxiliary_entry: "filter is_auxiliary (entry_effects w a) = []"
  by (rule filter_none) (auto dest: in_entry_effects)

lemma auxiliary_stdin: "filter is_auxiliary (snd (stdin_build w a)) = []"
  by (rule filter_none) (auto dest: in_stdin_build)

lemma auxiliary_files:
  "runtimeOnly_eff a \<Longrightarrow> filter is_auxiliary (snd (files_build w a)) = []"
  by (rule filter_none) (auto dest: in_files_build)

lemma literal_no_patch:
  assumes "truthy_stdin (stdin a)"
  shows "ForceModuleTypeInDist f \<notin> set (trace w a)"
  using assms by (auto simp: trace_def build_literal dest: in_entry_effects in_stdin_build)

text \<open>
  C9, as the code has it. A build with \<open>dev\<close> or \<open>runtimeOnly\<close> set runs none of the
  styles, binaries and declaration stages. When it builds from files, it returns
  \<open>undefined\<close> right after the metadata patch, which is its last effect. When it builds
  from literal input, it returns earlier: the metadata is not patched.
\<close>

theorem runtimeOnly_returns_after_patch:
  assumes "dev a \<or> runtimeOnly a"
  shows "filter is_auxiliary (trace w a) = [] \<and>
         (\<not> truthy_stdin (stdin a) \<longrightarrow>
            fst (build w a) = Returned None \<and>
            last (trace w a) = ForceModuleTypeInDist (format a)) \<and>
         (truthy_stdin (stdin a) \<longrightarrow>
            ForceModuleTypeInDist (format a) \<notin> set (trace w a))"
proof -
  from assms have ro: "runtimeOnly_eff a"
    by (auto simp: runtimeOnly_eff_def)
  have "filter is_auxiliary (trace w a) = []"
    by (cases "truthy_stdin (stdin a)")
      (simp_all add: trace_def build_literal build_files auxiliary_entry auxiliary_stdin
        auxiliary_files [OF ro])
  moreover have "last (trace w a) = ForceModuleTypeInDist (format a)"
    if "\<not> truthy_stdin (stdin a)"
    using that ro by (simp add: trace_def build_files files_build_def)
  moreover have "fst (build w a) = Returned None" if "\<not> truthy_stdin (stdin a)"
    using that by (simp add: build_files)
  ultimately show ?thesis
    using literal_no_patch [of a "format a" w] by simp
qed

theorem runtimeOnly_returns_after_patch_witness:
  "filter is_auxiliary (trace example_world runtimeOnly_args) = [] \<and>
   fst (build example_world runtimeOnly_args) = Returned None \<and>
   last (trace example_world runtimeOnly_args) = ForceModuleTypeInDist Esm"
proof -
  have h: "dev runtimeOnly_args \<or> runtimeOnly runtimeOnly_args"
    by (simp add: runtimeOnly_args_def)
  have f: "\<not> truthy_stdin (stdin runtimeOnly_args)"
    by (simp add: runtimeOnly_args_def default_args_def)
  show ?thesis
    using runtimeOnly_returns_after_patch [OF h, of example_world] f
    by (simp add: runtimeOnly_args_def default_args_def)
qed

text \<open>
  C9, as the spec states it, fails: a runtime-only build from literal input returns
  without having patched the metadata at all.
\<close>

theorem literal_runtimeOnly_never_patches:
  "runtimeOnly literal_runtimeOnly_args \<and>
   ForceModuleTypeInDist (format literal_runtimeOnly_args)
     \<notin> set (trace example_world literal_runtimeOnly_args)"
  by code_simp

subsection \<open>The normalization stage\<close>

lemma normalizations_Nil: "normalizations [] = []"
  by (simp add: normalizations_def List.map_filter_simps)

lemma normalizations_Cons:
  "normalizations (e # tr) =
     (case normalization e of None \<Rightarrow> normalizations tr | Some p \<Rightarrow> p # normalizations tr)"
  by (cases "normalization e") (simp_all add: normalizations_def List.map_filter_simps)

lemma normalizations_append:
  "normalizations (xs @ ys) = normalizations xs @ normalizations ys"
  by (simp add: normalizations_def map_filter_append)

lemma normalizations_entry: "normalizations (entry_effects w a) = []"
  unfolding normalizations_def by (rule map_filter_none) (auto dest: in_entry_effects)

lemma normalizations_tsx: "normalizations (tsx_effects w a) = []"
  unfolding normalizations_def by (rule map_filter_none) (auto dest: in_tsx_effects)

lemma normalizations_copy: "normalizations (copy_effects w a) = []"
  unfolding normalizations_def by (rule map_filter_none) (auto dest: in_copy_effects)

lemma normalizations_auxiliary: "normalizations (auxiliary_effects w a) = []"
  unfolding normalizations_def by (rule map_filter_none) (auto dest: in_auxiliary_effects)

text \<open>The assignment to \<open>NODE_ENV\<close> at entry does not change what \<open>NO_REWRITES\<close> reads.\<close>

lemma NO_REWRITES_read:
  "truthy (penv_after_entry w a ''NO_REWRITES'') =
     (penv w ''NO_REWRITES'' \<noteq> None \<and> penv w ''NO_REWRITES'' \<noteq> Some [])"
  by (cases "penv w ''NO_REWRITES''") (simp_all add: penv_after_entry_def)

lemma normalizations_normalize:
  "normalizations (normalize_effects w a) =
     (if penv w ''NO_REWRITES'' = None \<or> penv w ''NO_REWRITES'' = Some []
      then [if endsWith (emittedJs w a) ''.js'' then emittedJs w a else emittedJs w a @ ''.js'']
      else [])"
  by (simp add: normalize_effects_def NO_REWRITES_read normalizations_Cons normalizations_Nil)

lemma normalize_skipped:
  assumes "penv w ''NO_REWRITES'' = Some v" and "v \<noteq> []"
  shows "normalize_effects w a = []"
  using assms by (simp add: normalize_effects_def penv_after_entry_def)

lemma console_files:
  assumes "\<not> truthy_stdin (stdin a)"
  shows "console w a =
           [Banner (''TS Module ['' @ (if dev a then ''development'' else ''production'') @ '']''),
            Start ''Compiling TSX files.'', Success ''Compiled TSX files.'',
            Start ''Compiling TS/JS files.'', Success ''Compiled TS/JS files.'',
            Start ''Copying non-source files to dist/.'',
            Success ''Copied non-source files to dist/.''] @
           (if penv w ''NO_REWRITES'' = None \<or> penv w ''NO_REWRITES'' = Some []
            then [Start ''Normalizing import specifiers.'',
                  Success ''Normalized import specifiers.'']
            else []) @
           patch_console w @
           (if dev a \<or> runtimeOnly a then [] else auxiliary_console w a)"
  using assms
  by (auto simp: console_def files_console_def compile_console_def normalize_console_def
      showProgress_def node_env_def NO_REWRITES_read runtimeOnly_eff_def)

text \<open>
  C10, as the code has it. In a build from files, the normalization stage runs, once,
  exactly when \<open>NO_REWRITES\<close> is unset or set to the empty string; the build then prints
  the start and the success of the stage between those of the copy stage and of the
  metadata patch. When the variable has a non-empty value the stage is skipped and the
  emitted output is left as the engine produced it: the metadata patch follows the copy
  stage directly, and the build prints nothing in between, neither a warning nor a
  failure. In both cases the build returns \<open>undefined\<close>.
\<close>

theorem normalization_runs_unless_NO_REWRITES:
  assumes "\<not> truthy_stdin (stdin a)"
  shows "normalizations (trace w a) =
           (if penv w ''NO_REWRITES'' = None \<or> penv w ''NO_REWRITES'' = Some []
            then [if endsWith (emittedJs w a) ''.js'' then emittedJs w a
                  else emittedJs w a @ ''.js'']
            else []) \<and>
         fst (build w a) = Returned None \<and>
         (penv w ''NO_REWRITES'' \<noteq> None \<and> penv w ''NO_REWRITES'' \<noteq> Some [] \<longrightarrow>
            (\<exists>pre post. trace w a =
               pre @ copy_effects w a @ ForceModuleTypeInDist (format a) # post) \<and>
            console w a =
              [Banner (''TS Module ['' @ (if dev a then ''development'' else ''production'') @
                       '']''),
               Start ''Compiling TSX files.'', Success ''Compiled TSX files.'',
               Start ''Compiling TS/JS files.'', Success ''Compiled TS/JS files.'',
               Start ''Copying non-source files to dist/.'',
               Success ''Copied non-source files to dist/.''] @
              patch_console w @
              (if dev a \<or> runtimeOnly a then [] else auxiliary_console w a)) \<and>
         (penv w ''NO_REWRITES'' = None \<or> penv w ''NO_REWRITES'' = Some [] \<longrightarrow>
            console w a =
              [Banner (''TS Module ['' @ (if dev a then ''development'' else ''production'') @
                       '']''),
               Start ''Compiling TSX files.'', Success ''Compiled TSX files.'',
               Start ''Compiling TS/JS files.'', Success ''Compiled TS/JS files.'',
               Start ''Copying non-source files to dist/.'',
               Success ''Copied non-source files to dist/.'',
               Start ''Normalizing import specifiers.'',
               Success ''Normalized import specifiers.''] @
              patch_console w @
              (if dev a \<or> runtimeOnly a then [] else auxiliary_console w a))"
proof -
  have "\<exists>pre post. trace w a =
           pre @ copy_effects w a @ ForceModuleTypeInDist (format a) # post"
    if "penv w ''NO_REWRITES'' \<noteq> None" and "penv w ''NO_REWRITES'' \<noteq> Some []"
  proof -
    from that obtain v where "penv w ''NO_REWRITES'' = Some v" and "v \<noteq> []"
      by (cases "penv w ''NO_REWRITES''") auto
    then have skipped: "normalize_effects w a = []"
      by (rule normalize_skipped)
    have "trace w a =
            (entry_effects w a @ clean_effects w a @ tsx_effects w a @ ts_effects w a @
             [Rm (tempCopy w) False False]) @
            copy_effects w a @ ForceModuleTypeInDist (format a) #
            (if runtimeOnly_eff a then [] else auxiliary_effects w a)"
      using assms by (simp add: trace_def build_files files_build_def skipped)
    then show ?thesis by blast
  qed
  moreover have "normalizations (trace w a) =
           (if penv w ''NO_REWRITES'' = None \<or> penv w ''NO_REWRITES'' = Some []
            then [if endsWith (emittedJs w a) ''.js'' then emittedJs w a
                  else emittedJs w a @ ''.js'']
            else [])"
    using assms
    by (simp add: trace_def build_files files_build_def normalizations_append
        normalizations_Cons normalizations_Nil normalizations_entry normalizations_tsx
        normalizations_copy normalizations_auxiliary normalizations_normalize
        clean_effects_def ts_effects_def)
  moreover have "fst (build w a) = Returned None"
    using assms by (simp add: build_files)
  ultimately show ?thesis
    using console_files [OF assms, of w] by auto
qed

theorem normalization_runs_unless_NO_REWRITES_witness:
  "normalizations (trace world_NO_REWRITES_1 default_args) = [] \<and>
   normalizations (trace example_world default_args) = [''dist/**/*.js''] \<and>
   fst (build world_NO_REWRITES_1 default_args) = Returned None \<and>
   console world_NO_REWRITES_1 runtimeOnly_args =
     [Banner ''TS Module [production]'',
      Start ''Compiling TSX files.'', Success ''Compiled TSX files.'',
      Start ''Compiling TS/JS files.'', Success ''Compiled TS/JS files.'',
      Start ''Copying non-source files to dist/.'',
      Success ''Copied non-source files to dist/.'',
      Success (''Forced '' @ json_stringify ''type'' @ '' package.json field in dist.'')]"
proof -
  have f: "\<not> truthy_stdin (stdin default_args)"
    and r: "\<not> truthy_stdin (stdin runtimeOnly_args)"
    by (simp_all add: default_args_def runtimeOnly_args_def)
  have e: "emittedJs example_world default_args = ''dist/**/*''"
    by code_simp
  have n: "\<not> endsWith ''dist/**/*'' ''.js''"
    by code_simp
  show ?thesis
    using normalization_runs_unless_NO_REWRITES [OF f, of world_NO_REWRITES_1]
      normalization_runs_unless_NO_REWRITES [OF f, of example_world]
      normalization_runs_unless_NO_REWRITES [OF r, of world_NO_REWRITES_1] e n
    by (simp add: world_NO_REWRITES_1_def example_world_def runtimeOnly_args_def
        default_args_def patch_console_def)
qed

text \<open>
  C10, as the spec states it, fails: with \<open>NO_REWRITES\<close> set to the empty string, the
  variable is set and the stage runs all the same.
\<close>

theorem empty_NO_REWRITES_still_normalizes:
  "\<not> truthy_stdin (stdin default_args) \<and>
   penv world_NO_REWRITES_empty ''NO_REWRITES'' = Some [] \<and>
   normalizations (trace world_NO_REWRITES_empty default_args) = [''dist/**/*.js'']"
  by code_simp

end
